theory Spec2Isabelle
  imports Main
begin

section \<open>The bridge between the tree editor and the CRDT (bridge.ts)\<close>

text \<open>
  The development embeds \<^verbatim>\<open>src/bridge.ts\<close>: the compiler of local editor
  transactions into CRDT input operations (\<^verbatim>\<open>applyTransaction\<close>), the applier of
  CRDT patches to an editor transaction (\<^verbatim>\<open>applyPatchToTransaction\<close>), the
  builder of the initial tree document (\<^verbatim>\<open>prosemirrorDocFromCRDT\<close>) and the
  handler of incoming changes registered by \<^verbatim>\<open>createEditor\<close>.

  Positions, indices and counts are JavaScript numbers that hold integers; they are
  modelled as \<^typ>\<open>int\<close>. A thrown exception is the \<open>Inl\<close> of a sum type.
\<close>

subsection \<open>Values, marks and nodes\<close>

text \<open>A JavaScript value as far as the attribute checks look at it.\<close>

datatype JsValue =
    JsString string
  | JsNumber int
  | JsBoolean bool
  | JsNull
  | JsUndefined

text \<open>An object of attributes: its properties in order, looked up by name.\<close>

type_synonym Attrs = "(string \<times> JsValue) list"

definition getProp :: "Attrs \<Rightarrow> string \<Rightarrow> JsValue" where
  "getProp obj key = (case map_of obj key of None \<Rightarrow> JsUndefined | Some v \<Rightarrow> v)"

text \<open>\<^verbatim>\<open>typeof v === "string"\<close>.\<close>

fun isString :: "JsValue \<Rightarrow> bool" where
  "isString (JsString s) = True"
| "isString v = False"

text \<open>The truthiness an \<^verbatim>\<open>if (v)\<close> tests.\<close>

fun truthy :: "JsValue \<Rightarrow> bool" where
  "truthy (JsString s) = (s \<noteq> [])"
| "truthy (JsNumber n) = (n \<noteq> 0)"
| "truthy (JsBoolean b) = b"
| "truthy JsNull = False"
| "truthy JsUndefined = False"

datatype error =
    InvalidMarkType string
  | ExpectedCommentId
  | ExpectedLinkUrl
  | EmptyTextNode
  | PositionOutOfRange
  | OutsideModel
  | Unreachable

text \<open>
  A mark of the editor: \<^verbatim>\<open>mark.type.name\<close> and \<^verbatim>\<open>mark.attrs\<close>. The
  attributes are optional because the compiler tests \<^verbatim>\<open>!step.mark.attrs\<close>.
\<close>

record PMMark =
  markName :: string
  markAttrs :: "Attrs option"

text \<open>\<^verbatim>\<open>schema.mark(type, attrs)\<close>: the mark of that type with those attributes.\<close>

definition schema_mark :: "string \<Rightarrow> Attrs option \<Rightarrow> PMMark" where
  "schema_mark markType attrs = \<lparr> markName = markType, markAttrs = attrs \<rparr>"

text \<open>A node of the tree document: a text node with its marks, or an element.\<close>

datatype PMNode =
    TextNode string "PMMark list"
  | ElemNode string "PMNode list"

text \<open>
  \<^verbatim>\<open>schema.text(text, marks)\<close>. The editor framework refuses an empty text node
  (the source says so where it builds the empty document).
\<close>

definition schema_text :: "string \<Rightarrow> PMMark list \<Rightarrow> error + PMNode" where
  "schema_text t marks = (if t = [] then Inl EmptyTextNode else Inr (TextNode t marks))"

text \<open>
  \<^verbatim>\<open>fragment.textBetween(0, fragment.size)\<close> with no block separator and no leaf
  text: the text of the text nodes, in document order.
\<close>

fun nodeText :: "PMNode \<Rightarrow> string" where
  "nodeText (TextNode t marks) = t"
| "nodeText (ElemNode name children) = concat (map nodeText children)"

definition textBetween :: "PMNode list \<Rightarrow> string" where
  "textBetween fragment = concat (map nodeText fragment)"

text \<open>\<^verbatim>\<open>node.nodeSize\<close> and \<^verbatim>\<open>fragment.size\<close>.\<close>

fun nodeSize :: "PMNode \<Rightarrow> int" where
  "nodeSize (TextNode t marks) = int (length t)"
| "nodeSize (ElemNode name children) = 2 + sum_list (map nodeSize children)"

definition fragmentSize :: "PMNode list \<Rightarrow> int" where
  "fragmentSize fragment = sum_list (map nodeSize fragment)"

text \<open>A slice: its content (the open depths are 0 wherever the bridge builds one).\<close>

record Slice =
  content :: "PMNode list"

definition Slice_empty :: Slice where
  "Slice_empty = \<lparr> content = [] \<rparr>"

subsection \<open>Steps, operations and patches\<close>

text \<open>
  The steps of a transaction: \<^verbatim>\<open>ReplaceStep(from, to, slice)\<close>,
  \<^verbatim>\<open>AddMarkStep(from, to, mark)\<close>, \<^verbatim>\<open>RemoveMarkStep(from, to, mark)\<close>, and any
  other step class. The slice is optional because the compiler tests
  \<^verbatim>\<open>if (step.slice)\<close>.
\<close>

datatype Step =
    ReplaceStep int int "Slice option"
  | AddMarkStep int int PMMark
  | RemoveMarkStep int int PMMark
  | OtherStep string

type_synonym OperationPath = "string list"

text \<open>The input operations handed to the engine's \<^verbatim>\<open>change\<close>.\<close>

datatype InputOperation =
    OpInsert OperationPath int "string list"
  | OpDelete OperationPath int int
  | OpAddMark OperationPath int int string "Attrs option"
  | OpRemoveMark OperationPath int int string "Attrs option"
  | OpMakeList OperationPath string

text \<open>
  The patches the engine's \<^verbatim>\<open>applyChange\<close> returns, by their \<^verbatim>\<open>action\<close>:
  insert (path, index, values), delete (path, index, count), makeList (path, key),
  addMark and removeMark (path, start, end, markType, attrs). Types are erased at run
  time, so a patch with any other action is a value too.
\<close>

datatype Patch =
    PInsert OperationPath int "string list"
  | PDelete OperationPath int int
  | PMakeList OperationPath string
  | PAddMark OperationPath int int string "Attrs option"
  | PRemoveMark OperationPath int int string "Attrs option"
  | POther string

subsection \<open>The editor framework, for a document of one paragraph\<close>

text \<open>
  The tree document is one paragraph of inline text (the bridge assumes so: "for now we
  only have a single node"). It is kept as the paragraph's characters, each with its
  marks. Tree position \<open>0\<close> is before the paragraph, position \<open>1\<close> before its first
  character, and \<^verbatim>\<open>doc.content.size\<close> is the number of characters plus 2.
\<close>

type_synonym TreeDoc = "(char \<times> PMMark list) list"

definition contentSize :: "TreeDoc \<Rightarrow> int" where
  "contentSize d = int (length d) + 2"

definition docText :: "TreeDoc \<Rightarrow> string" where
  "docText d = map fst d"

text \<open>
  A transaction: the document it has reached and the edits asked of it, one step for
  each call that changed something, with the positions of the call.
\<close>

record Transaction =
  doc :: TreeDoc
  steps :: "Step list"

fun nodeChars :: "PMNode \<Rightarrow> (char \<times> PMMark list) list" where
  "nodeChars (TextNode t marks) = map (\<lambda>c. (c, marks)) t"
| "nodeChars (ElemNode name children) = concat (map nodeChars children)"

fun isTextNode :: "PMNode \<Rightarrow> bool" where
  "isTextNode (TextNode t marks) = True"
| "isTextNode (ElemNode name children) = False"

text \<open>
  \<^verbatim>\<open>transaction.replace(from, to, slice)\<close>. A position outside the document is
  refused by the framework; an empty slice over an empty range adds no step; the
  whole content range replaced by nothing leaves the empty paragraph; a range inside
  the paragraph is replaced by the characters of a slice of text nodes. Every other
  call would leave the one-paragraph shape and is \<open>OutsideModel\<close>.
\<close>

definition tr_replace :: "Transaction \<Rightarrow> int \<Rightarrow> int \<Rightarrow> Slice \<Rightarrow> error + Transaction" where
  "tr_replace tr from to slice =
     (if from < 0 \<or> contentSize (doc tr) < from \<or> to < 0 \<or> contentSize (doc tr) < to
        then Inl PositionOutOfRange
      else if from = to \<and> fragmentSize (content slice) = 0
        then Inr tr
      else if from = 0 \<and> to = contentSize (doc tr) \<and> content slice = []
        then Inr \<lparr> doc = [], steps = steps tr @ [ReplaceStep from to (Some slice)] \<rparr>
      else if 1 \<le> from \<and> from \<le> to \<and> to \<le> contentSize (doc tr) - 1
              \<and> list_all isTextNode (content slice)
        then Inr \<lparr> doc = take (nat (from - 1)) (doc tr)
                          @ concat (map nodeChars (content slice))
                          @ drop (nat (to - 1)) (doc tr),
                   steps = steps tr @ [ReplaceStep from to (Some slice)] \<rparr>
      else Inl OutsideModel)"

text \<open>The characters a mark call touches: those at tree positions \<open>from \<le> p < to\<close>.\<close>

definition mapRange :: "int \<Rightarrow> int \<Rightarrow> ('a \<Rightarrow> 'a) \<Rightarrow> 'a list \<Rightarrow> 'a list" where
  "mapRange from to f xs =
     map (\<lambda>(i, x). if from \<le> int i + 1 \<and> int i + 1 < to then f x else x)
       (zip [0 ..< length xs] xs)"

definition addToSet :: "PMMark \<Rightarrow> PMMark list \<Rightarrow> PMMark list" where
  "addToSet mark marks = (if mark \<in> set marks then marks else marks @ [mark])"

text \<open>
  \<^verbatim>\<open>transaction.addMark(from, to, mark)\<close> and
  \<^verbatim>\<open>transaction.removeMark(from, to, mark)\<close>: an empty range changes nothing;
  otherwise the characters in the range gain (lose) the mark and the call is recorded.
\<close>

definition tr_addMark :: "Transaction \<Rightarrow> int \<Rightarrow> int \<Rightarrow> PMMark \<Rightarrow> Transaction" where
  "tr_addMark tr from to mark =
     (if to \<le> from then tr
      else \<lparr> doc = mapRange from to (\<lambda>(c, marks). (c, addToSet mark marks)) (doc tr),
             steps = steps tr @ [AddMarkStep from to mark] \<rparr>)"

definition tr_removeMark :: "Transaction \<Rightarrow> int \<Rightarrow> int \<Rightarrow> PMMark \<Rightarrow> Transaction" where
  "tr_removeMark tr from to mark =
     (if to \<le> from then tr
      else \<lparr> doc = mapRange from to (\<lambda>(c, marks). (c, filter (\<lambda>m. m \<noteq> mark) marks)) (doc tr),
             steps = steps tr @ [RemoveMarkStep from to mark] \<rparr>)"

text \<open>The editor state: \<^verbatim>\<open>state.tr\<close> and \<^verbatim>\<open>state.apply(transaction)\<close>.\<close>

record EditorState =
  state_doc :: TreeDoc

definition state_tr :: "EditorState \<Rightarrow> Transaction" where
  "state_tr state = \<lparr> doc = state_doc state, steps = [] \<rparr>"

definition state_apply :: "EditorState \<Rightarrow> Transaction \<Rightarrow> EditorState" where
  "state_apply state transaction = state \<lparr> state_doc := doc transaction \<rparr>"

subsection \<open>Parts of the repository outside bridge.ts\<close>

text \<open>
  \<^verbatim>\<open>Micromerge.contentKey\<close>, \<^verbatim>\<open>isMarkType\<close> and \<^verbatim>\<open>ALL_MARKS\<close> (schema.ts)
  and the engine's \<^verbatim>\<open>change\<close> and \<^verbatim>\<open>applyChange\<close> are declared in other files.
  The functions below take them as parameters: \<open>contentKey\<close>, \<open>isMarkType\<close>,
  \<open>ALL_MARKS\<close>, and the engine's two calls as functions on the engine's state.
\<close>

text \<open>
  Modelled from the spec: \<^verbatim>\<open>unreachable\<close>, the helper called after the switch of
  \<^verbatim>\<open>applyPatchToTransaction\<close>, is not in bridge.ts. The spec makes a patch variant
  outside the closed set fatal ("abort the current change's application loudly"), and
  the source lets the function end on the call, so the helper never returns: it throws.
\<close>

definition unreachable :: "Patch \<Rightarrow> error + Transaction" where
  "unreachable patch = Inl Unreachable"

subsection \<open>Remote Patch Applier: applyPatchToTransaction\<close>

text \<open>
  \<^verbatim>\<open>patch.values[0]\<close> of an empty array is \<^verbatim>\<open>undefined\<close>, and
  \<^verbatim>\<open>schema.text(undefined)\<close> is refused like the empty text.
\<close>

definition firstValue :: "string list \<Rightarrow> string" where
  "firstValue vs = (case vs of [] \<Rightarrow> [] | v # rest \<Rightarrow> v)"

fun applyPatchToTransaction :: "string \<Rightarrow> Transaction \<Rightarrow> Patch \<Rightarrow> error + Transaction" where
  "applyPatchToTransaction contentKey transaction (PInsert path idx vs) =
     (let index = idx + 1 in
      case schema_text (firstValue vs) [] of
        Inl e \<Rightarrow> Inl e
      | Inr node \<Rightarrow> tr_replace transaction index index \<lparr> content = [node] \<rparr>)"
| "applyPatchToTransaction contentKey transaction (PDelete path idx count) =
     (let index = idx + 1 in
      tr_replace transaction index (index + count) Slice_empty)"
| "applyPatchToTransaction contentKey transaction (PMakeList path key) =
     (if length path = 0 \<and> key = contentKey
        then tr_replace transaction 0 (contentSize (doc transaction)) Slice_empty
      else Inr transaction)"
| "applyPatchToTransaction contentKey transaction (PAddMark path start endIdx markType attrs) =
     Inr (tr_addMark transaction (start + 1) (endIdx + 1 + 1) (schema_mark markType attrs))"
| "applyPatchToTransaction contentKey transaction (PRemoveMark path start endIdx markType attrs) =
     Inr (tr_removeMark transaction (start + 1) (endIdx + 1 + 1) (schema_mark markType attrs))"
| "applyPatchToTransaction contentKey transaction (POther action) =
     unreachable (POther action)"

text \<open>
  The inner loop of the subscribe handler:
  \<^verbatim>\<open>for (const patch of patches) transaction = applyPatchToTransaction(transaction, patch)\<close>.
\<close>

fun applyPatches :: "string \<Rightarrow> Transaction \<Rightarrow> Patch list \<Rightarrow> error + Transaction" where
  "applyPatches contentKey transaction [] = Inr transaction"
| "applyPatches contentKey transaction (patch # patches) =
     (case applyPatchToTransaction contentKey transaction patch of
        Inl e \<Rightarrow> Inl e
      | Inr transaction' \<Rightarrow> applyPatches contentKey transaction' patches)"

subsection \<open>The subscribe handler of createEditor\<close>

text \<open>
  What the handler can change: the engine's document, the state held by the view, and
  the calls it makes to the engine and to the view, recorded in order. (The debug
  output written for each change is left out.)
\<close>

datatype 'c Call =
    ApplyChange 'c
  | UpdateState EditorState

record ('d, 'c) Editor =
  crdt :: 'd
  view_state :: EditorState
  calls :: "'c Call list"

text \<open>
  The loop over the incoming changes. It returns the error that stopped it, if one
  did, with the engine's document, the local \<^verbatim>\<open>state\<close> and the calls so far.
\<close>

fun applyIncoming ::
  "string \<Rightarrow> ('d \<Rightarrow> 'c \<Rightarrow> Patch list \<times> 'd) \<Rightarrow> 'd \<Rightarrow> EditorState \<Rightarrow> 'c Call list \<Rightarrow> 'c list
     \<Rightarrow> error option \<times> 'd \<times> EditorState \<times> 'c Call list" where
  "applyIncoming contentKey applyChange d state cs [] = (None, d, state, cs)"
| "applyIncoming contentKey applyChange d state cs (change # incoming) =
     (let transaction = state_tr state;
          (patches, d') = applyChange d change
      in case applyPatches contentKey transaction patches of
           Inl e \<Rightarrow> (Some e, d', state, cs @ [ApplyChange change])
         | Inr transaction' \<Rightarrow>
             applyIncoming contentKey applyChange d' (state_apply state transaction')
               (cs @ [ApplyChange change]) incoming)"

definition subscribeHandler ::
  "string \<Rightarrow> ('d \<Rightarrow> 'c \<Rightarrow> Patch list \<times> 'd) \<Rightarrow> ('d, 'c) Editor \<Rightarrow> 'c list
     \<Rightarrow> error option \<times> ('d, 'c) Editor" where
  "subscribeHandler contentKey applyChange editor incomingChanges =
     (if length incomingChanges = 0 then (None, editor)
      else
        case applyIncoming contentKey applyChange (crdt editor) (view_state editor)
               (calls editor) incomingChanges of
          (Some e, d, state, cs) \<Rightarrow> (Some e, editor \<lparr> crdt := d, calls := cs \<rparr>)
        | (None, d, state, cs) \<Rightarrow>
            (None, editor \<lparr> crdt := d, view_state := state,
                             calls := cs @ [UpdateState state] \<rparr>))"

subsection \<open>Coordinate Mapper: contentPosFromProsemirrorPos\<close>

definition contentPosFromProsemirrorPos :: "int \<Rightarrow> int" where
  "contentPosFromProsemirrorPos position = position - 1"

subsection \<open>Initial Projection Builder: prosemirrorDocFromCRDT\<close>

text \<open>
  The value of a mark in a span: an array of attribute objects (a mark that can hold
  several values) or one object with an \<^verbatim>\<open>active\<close> property.
\<close>

datatype MarkValue =
    MarkValueArray "Attrs list"
  | MarkValueObject Attrs

record FormatSpanWithText =
  span_text :: string
  span_marks :: "(string \<times> MarkValue) list"

text \<open>\<^verbatim>\<open>for (const value of markValue) marks.push(schema.mark(markType, value))\<close>\<close>

fun pushValues :: "string \<Rightarrow> Attrs list \<Rightarrow> PMMark list \<Rightarrow> PMMark list" where
  "pushValues markType [] marks = marks"
| "pushValues markType (v # markValue) marks =
     pushValues markType markValue (marks @ [schema_mark markType (Some v)])"

text \<open>\<^verbatim>\<open>for (const markType of ALL_MARKS) { ... }\<close>, with \<open>marks\<close> the array built so far.\<close>

fun spanMarks :: "FormatSpanWithText \<Rightarrow> string list \<Rightarrow> PMMark list \<Rightarrow> PMMark list" where
  "spanMarks span [] marks = marks"
| "spanMarks span (markType # rest) marks =
     (case map_of (span_marks span) markType of
        None \<Rightarrow> spanMarks span rest marks
      | Some (MarkValueArray markValue) \<Rightarrow>
          spanMarks span rest (pushValues markType markValue marks)
      | Some (MarkValueObject markValue) \<Rightarrow>
          (if truthy (getProp markValue ''active'')
             then spanMarks span rest (marks @ [schema_mark markType (Some markValue)])
           else spanMarks span rest marks))"

definition spanNode :: "string list \<Rightarrow> FormatSpanWithText \<Rightarrow> error + PMNode" where
  "spanNode ALL_MARKS span = schema_text (span_text span) (spanMarks span ALL_MARKS [])"

text \<open>\<^verbatim>\<open>spans.map(span => ...)\<close>, stopped by the first exception.\<close>

fun mapSpans :: "string list \<Rightarrow> FormatSpanWithText list \<Rightarrow> error + PMNode list" where
  "mapSpans ALL_MARKS [] = Inr []"
| "mapSpans ALL_MARKS (span # spans) =
     (case spanNode ALL_MARKS span of
        Inl e \<Rightarrow> Inl e
      | Inr node \<Rightarrow>
          (case mapSpans ALL_MARKS spans of
             Inl e \<Rightarrow> Inl e
           | Inr nodes \<Rightarrow> Inr (node # nodes)))"

definition prosemirrorDocFromCRDT :: "string list \<Rightarrow> FormatSpanWithText list \<Rightarrow> error + PMNode" where
  "prosemirrorDocFromCRDT ALL_MARKS spans =
     (if length spans = 1 \<and> span_text (spans ! 0) = []
        then Inr (ElemNode ''doc'' [ElemNode ''paragraph'' []])
      else
        case mapSpans ALL_MARKS spans of
          Inl e \<Rightarrow> Inl e
        | Inr nodes \<Rightarrow> Inr (ElemNode ''doc'' [ElemNode ''paragraph'' nodes]))"

subsection \<open>Local Edit Compiler: applyTransaction\<close>

text \<open>\<^verbatim>\<open>insertedContent.split("")\<close>: one string for each character.\<close>

definition split_chars :: "string \<Rightarrow> string list" where
  "split_chars s = map (\<lambda>c. [c]) s"

text \<open>
  \<^verbatim>\<open>!step.mark.attrs || typeof step.mark.attrs.id !== "string"\<close>, for the
  property \<open>key\<close>.
\<close>

definition lacksString :: "Attrs option \<Rightarrow> string \<Rightarrow> bool" where
  "lacksString attrs key =
     (case attrs of None \<Rightarrow> True | Some obj \<Rightarrow> \<not> isString (getProp obj key))"

text \<open>
  The body of the loop over \<^verbatim>\<open>txn.steps\<close>, for one step: \<open>operations\<close> is the
  array so far, and the result is the array after the pushes, or the exception.
\<close>

fun compileStep ::
  "string \<Rightarrow> (string \<Rightarrow> bool) \<Rightarrow> InputOperation list \<Rightarrow> Step \<Rightarrow> error + InputOperation list" where
  "compileStep contentKey isMarkType operations (ReplaceStep from to slice) =
     (case slice of
        Some sl \<Rightarrow>
          (let operations' =
                 (if from \<noteq> to
                    then operations @ [OpDelete [contentKey] (contentPosFromProsemirrorPos from) (to - from)]
                  else operations);
               insertedContent = textBetween (content sl)
           in Inr (operations' @ [OpInsert [contentKey] (contentPosFromProsemirrorPos from)
                                    (split_chars insertedContent)]))
      | None \<Rightarrow>
          Inr (operations @ [OpDelete [contentKey] (contentPosFromProsemirrorPos from) (to - from)]))"
| "compileStep contentKey isMarkType operations (AddMarkStep from to mark) =
     (if \<not> isMarkType (markName mark) then Inl (InvalidMarkType (markName mark))
      else
        let start = contentPosFromProsemirrorPos from;
            endIdx = contentPosFromProsemirrorPos (to - 1)
        in if markName mark = ''comment'' then
             (if lacksString (markAttrs mark) ''id'' then Inl ExpectedCommentId
              else Inr (operations @ [OpAddMark [contentKey] start endIdx (markName mark) (markAttrs mark)]))
           else if markName mark = ''link'' then
             (if lacksString (markAttrs mark) ''url'' then Inl ExpectedLinkUrl
              else Inr (operations @ [OpAddMark [contentKey] start endIdx (markName mark) (markAttrs mark)]))
           else Inr (operations @ [OpAddMark [contentKey] start endIdx (markName mark) None]))"
| "compileStep contentKey isMarkType operations (RemoveMarkStep from to mark) =
     (if \<not> isMarkType (markName mark) then Inl (InvalidMarkType (markName mark))
      else
        let start = contentPosFromProsemirrorPos from;
            endIdx = contentPosFromProsemirrorPos (to - 1)
        in if markName mark = ''comment'' then
             (if lacksString (markAttrs mark) ''id'' then Inl ExpectedCommentId
              else Inr (operations @ [OpRemoveMark [contentKey] start endIdx (markName mark) (markAttrs mark)]))
           else Inr (operations @ [OpRemoveMark [contentKey] start endIdx (markName mark) None]))"
| "compileStep contentKey isMarkType operations (OtherStep name) = Inr operations"

text \<open>\<^verbatim>\<open>for (const step of txn.steps) { ... }\<close>\<close>

fun compileSteps ::
  "string \<Rightarrow> (string \<Rightarrow> bool) \<Rightarrow> InputOperation list \<Rightarrow> Step list \<Rightarrow> error + InputOperation list" where
  "compileSteps contentKey isMarkType operations [] = Inr operations"
| "compileSteps contentKey isMarkType operations (step # rest) =
     (case compileStep contentKey isMarkType operations step of
        Inl e \<Rightarrow> Inl e
      | Inr operations' \<Rightarrow> compileSteps contentKey isMarkType operations' rest)"

text \<open>
  \<^verbatim>\<open>applyTransaction({doc, txn})\<close>: the change returned (\<open>None\<close> for
  \<^verbatim>\<open>null\<close>) and the engine's document after the call.
\<close>

definition applyTransaction ::
  "string \<Rightarrow> (string \<Rightarrow> bool) \<Rightarrow> ('d \<Rightarrow> InputOperation list \<Rightarrow> 'c \<times> 'd) \<Rightarrow> 'd \<Rightarrow> Transaction
     \<Rightarrow> error + ('c option \<times> 'd)" where
  "applyTransaction contentKey isMarkType change d txn =
     (case compileSteps contentKey isMarkType [] (steps txn) of
        Inl e \<Rightarrow> Inl e
      | Inr operations \<Rightarrow>
          (if length operations > 0
             then (case change d operations of (c, d') \<Rightarrow> Inr (Some c, d'))
           else Inr (None, d)))"

subsection \<open>The builder's marks as the specification words them\<close>

text \<open>
  The instances one mark kind contributes to a span, in the words of the specification:
  nothing when the span has no value for the kind, one instance for each entry of a list
  value, and for a single value one instance when its active flag is set.
\<close>

definition spec_markInstances :: "FormatSpanWithText \<Rightarrow> string \<Rightarrow> PMMark list" where
  "spec_markInstances span markType =
     (case map_of (span_marks span) markType of
        None \<Rightarrow> []
      | Some (MarkValueArray entries) \<Rightarrow> map (\<lambda>v. schema_mark markType (Some v)) entries
      | Some (MarkValueObject v) \<Rightarrow>
          (if truthy (getProp v ''active'') then [schema_mark markType (Some v)] else []))"

section \<open>Properties\<close>

subsection \<open>The subscribe handler on an empty batch\<close>

text \<open>
  C10. When the subscribe handler receives an empty batch of incoming changes it
  returns at once: no exception, the engine's document and the state of the view are
  the ones before the call, and no call to \<^verbatim>\<open>applyChange\<close> or to
  \<^verbatim>\<open>view.updateState\<close> has been added to the calls made.
\<close>

theorem subscribeHandler_empty_batch:
  "subscribeHandler contentKey applyChange editor [] = (None, editor)
   \<and> calls (snd (subscribeHandler contentKey applyChange editor [])) = calls editor
   \<and> crdt (snd (subscribeHandler contentKey applyChange editor [])) = crdt editor
   \<and> view_state (snd (subscribeHandler contentKey applyChange editor [])) = view_state editor"
  by (simp add: subscribeHandler_def)

text \<open>
  By contrast a batch of one change whose patches apply calls \<^verbatim>\<open>applyChange\<close>
  once and then \<^verbatim>\<open>view.updateState\<close>.
\<close>

lemma subscribeHandler_single_change:
  assumes "applyChange (crdt editor) change = (patches, d')"
    and "applyPatches contentKey (state_tr (view_state editor)) patches = Inr transaction"
  shows "calls (snd (subscribeHandler contentKey applyChange editor [change]))
         = calls editor @ [ApplyChange change,
                           UpdateState (state_apply (view_state editor) transaction)]"
  using assms by (simp add: subscribeHandler_def)

subsection \<open>The empty document\<close>

text \<open>
  C7. When the Initial Projection Builder receives exactly one span and its text is
  empty, the result is the document holding a single paragraph with no child: one
  empty block container and no text node.
\<close>

theorem prosemirrorDocFromCRDT_single_empty_span:
  assumes "span_text span = []"
  shows "prosemirrorDocFromCRDT ALL_MARKS [span] = Inr (ElemNode ''doc'' [ElemNode ''paragraph'' []])"
  using assms by (simp add: prosemirrorDocFromCRDT_def)

theorem prosemirrorDocFromCRDT_single_empty_span_witness:
  "span_text \<lparr> span_text = [], span_marks = [(''strong'', MarkValueObject [(''active'', JsBoolean True)])] \<rparr> = []
   \<and> prosemirrorDocFromCRDT [''strong'', ''em'', ''comment'', ''link'']
        [\<lparr> span_text = [], span_marks = [(''strong'', MarkValueObject [(''active'', JsBoolean True)])] \<rparr>]
      = Inr (ElemNode ''doc'' [ElemNode ''paragraph'' []])"
  using prosemirrorDocFromCRDT_single_empty_span
    [of "\<lparr> span_text = [], span_marks = [(''strong'', MarkValueObject [(''active'', JsBoolean True)])] \<rparr>"
        "[''strong'', ''em'', ''comment'', ''link'']"]
  by simp

subsection \<open>The makeList patch\<close>

lemma tr_replace_whole_content:
  "tr_replace tr 0 (contentSize (doc tr)) Slice_empty
   = Inr \<lparr> doc = [], steps = steps tr @ [ReplaceStep 0 (contentSize (doc tr)) (Some Slice_empty)] \<rparr>"
  by (simp add: tr_replace_def contentSize_def Slice_empty_def fragmentSize_def)

text \<open>
  C6. For every makeList patch, the Remote Patch Applier replaces the entire content
  range \<open>0 .. doc.content.size\<close> of the document with nothing (the step is recorded and
  the paragraph is left empty) if and only if the patch's path is empty and its key is
  the root-content key; it returns the transaction unchanged if and only if that is
  not so.
\<close>

theorem applyPatchToTransaction_makeList:
  "(applyPatchToTransaction contentKey tr (PMakeList path key)
      = Inr \<lparr> doc = [], steps = steps tr @ [ReplaceStep 0 (contentSize (doc tr)) (Some Slice_empty)] \<rparr>)
     = (path = [] \<and> key = contentKey)
   \<and> (applyPatchToTransaction contentKey tr (PMakeList path key) = Inr tr)
     = (\<not> (path = [] \<and> key = contentKey))"
proof -
  have differs: "\<lparr> doc = [], steps = steps tr @ [ReplaceStep 0 (contentSize (doc tr)) (Some Slice_empty)] \<rparr> \<noteq> tr"
  proof
    assume "\<lparr> doc = [], steps = steps tr @ [ReplaceStep 0 (contentSize (doc tr)) (Some Slice_empty)] \<rparr> = tr"
    then have "steps \<lparr> doc = [], steps = steps tr @ [ReplaceStep 0 (contentSize (doc tr)) (Some Slice_empty)] \<rparr> = steps tr"
      by simp
    then show False by simp
  qed
  show ?thesis
  proof (cases "path = [] \<and> key = contentKey")
    case True
    then show ?thesis using differs by (simp add: tr_replace_whole_content)
  next
    case False
    then show ?thesis using differs by auto
  qed
qed

subsection \<open>Patches outside the closed set\<close>

lemma tr_replace_not_Unreachable: "tr_replace tr from to slice \<noteq> Inl Unreachable"
  by (simp add: tr_replace_def)

text \<open>
  C8. The Remote Patch Applier handles the five patch variants insert, delete,
  makeList, addMark and removeMark; a patch with any other action reaches the
  unreachable branch and the application aborts, and only such a patch does: the
  transaction is never returned for it.
\<close>

theorem applyPatchToTransaction_closed_set:
  "applyPatchToTransaction contentKey tr (POther action) = Inl Unreachable
   \<and> (applyPatchToTransaction contentKey tr patch = Inl Unreachable) = (\<exists>a. patch = POther a)"
proof -
  have "(applyPatchToTransaction contentKey tr patch = Inl Unreachable) = (\<exists>a. patch = POther a)"
  proof (cases patch)
    case (PInsert path idx vs)
    then show ?thesis
      by (simp add: schema_text_def Let_def tr_replace_not_Unreachable)
  next
    case (PDelete path idx count)
    then show ?thesis by (simp add: Let_def tr_replace_not_Unreachable)
  next
    case (PMakeList path key)
    then show ?thesis by (simp add: tr_replace_not_Unreachable)
  next
    case (PAddMark path start endIdx markType attrs)
    then show ?thesis by simp
  next
    case (PRemoveMark path start endIdx markType attrs)
    then show ?thesis by simp
  next
    case (POther a)
    then show ?thesis by (simp add: unreachable_def)
  qed
  then show ?thesis by (simp add: unreachable_def)
qed

subsection \<open>The marks of a span\<close>

lemma pushValues_append:
  "pushValues markType entries marks = marks @ map (\<lambda>v. schema_mark markType (Some v)) entries"
  by (induction entries arbitrary: marks) simp_all

lemma spanMarks_append:
  "spanMarks span kinds marks = marks @ concat (map (spec_markInstances span) kinds)"
proof (induction kinds arbitrary: marks)
  case Nil
  show ?case by simp
next
  case (Cons markType rest)
  show ?case
  proof (cases "map_of (span_marks span) markType")
    case None
    then show ?thesis by (simp add: Cons.IH spec_markInstances_def)
  next
    case (Some markValue)
    then show ?thesis
      by (cases markValue) (simp_all add: Cons.IH spec_markInstances_def pushValues_append)
  qed
qed


text \<open>
  The order of the entries in the span's own mark object plays no part: two spans whose
  objects hold the same value for every kind get the same marks.
\<close>

lemma spanMarks_lookup_only:
  assumes "map_of (span_marks s1) = map_of (span_marks s2)"
  shows "spanMarks s1 kinds marks = spanMarks s2 kinds marks"
proof -
  have "spec_markInstances s1 = spec_markInstances s2"
    using assms by (simp add: spec_markInstances_def fun_eq_iff)
  then show ?thesis by (simp add: spanMarks_append)
qed

lemma spec_markInstances_kind:
  "m \<in> set (spec_markInstances span markType) \<Longrightarrow> markName m = markType"
proof (cases "map_of (span_marks span) markType")
  case None
  assume "m \<in> set (spec_markInstances span markType)"
  with None show ?thesis by (simp add: spec_markInstances_def)
next
  case (Some markValue)
  assume "m \<in> set (spec_markInstances span markType)"
  with Some show ?thesis
    by (cases markValue) (auto simp: spec_markInstances_def schema_mark_def split: if_splits)
qed

text \<open>
  When the kinds of \<open>ALL_MARKS\<close> are distinct, the marks of one kind in the result are
  that kind's instances: as many as the list has entries.
\<close>

lemma spanMarks_of_kind:
  assumes "distinct kinds" and "markType \<in> set kinds"
  shows "filter (\<lambda>m. markName m = markType) (spanMarks span kinds [])
         = spec_markInstances span markType"
proof -
  have other: "filter (\<lambda>m. markName m = markType) (spec_markInstances span k) = []"
    if "k \<noteq> markType" for k
    using that spec_markInstances_kind [of _ span k] by (auto simp: filter_empty_conv)
  have same: "filter (\<lambda>m. markName m = markType) (spec_markInstances span markType)
              = spec_markInstances span markType"
    using spec_markInstances_kind [of _ span markType] by (auto simp: filter_id_conv)
  have absent: "filter (\<lambda>m. markName m = markType) (concat (map (spec_markInstances span) ks)) = []"
    if "markType \<notin> set ks" for ks
    using that by (induction ks) (auto simp: other)
  have "filter (\<lambda>m. markName m = markType) (concat (map (spec_markInstances span) kinds))
        = spec_markInstances span markType"
    using assms
  proof (induction kinds)
    case Nil
    then show ?case by simp
  next
    case (Cons k ks)
    show ?case
    proof (cases "k = markType")
      case True
      then have "markType \<notin> set ks" using Cons.prems by simp
      then show ?thesis using True by (simp add: same absent)
    next
      case False
      then show ?thesis using Cons by (simp add: other)
    qed
  qed
  then show ?thesis by (simp add: spanMarks_append)
qed

subsection \<open>One transaction, one change\<close>

lemma compileStep_append:
  "compileStep contentKey isMarkType operations step
   = (case compileStep contentKey isMarkType [] step of
        Inl e \<Rightarrow> Inl e
      | Inr pushed \<Rightarrow> Inr (operations @ pushed))"
  by (cases step) (auto simp: Let_def split: option.splits)

lemma compileSteps_concat:
  assumes "compileSteps contentKey isMarkType operations stepList = Inr result"
  shows "\<exists>perStep. map (compileStep contentKey isMarkType []) stepList = map Inr perStep
                   \<and> result = operations @ concat perStep"
  using assms
proof (induction stepList arbitrary: operations)
  case Nil
  then show ?case by simp
next
  case (Cons step rest)
  from Cons.prems obtain operations' where
    one: "compileStep contentKey isMarkType operations step = Inr operations'"
    and more: "compileSteps contentKey isMarkType operations' rest = Inr result"
    by (auto split: sum.splits)
  from one obtain pushed where
    pushed: "compileStep contentKey isMarkType [] step = Inr pushed"
    and ops': "operations' = operations @ pushed"
    by (subst (asm) compileStep_append) (auto split: sum.splits)
  from Cons.IH [OF more] obtain perStep where
    rest: "map (compileStep contentKey isMarkType []) rest = map Inr perStep"
    and res: "result = operations' @ concat perStep"
    by blast
  have "map (compileStep contentKey isMarkType []) (step # rest) = map Inr (pushed # perStep)"
    using pushed rest by simp
  moreover have "result = operations @ concat (pushed # perStep)"
    using res ops' by simp
  ultimately show ?case by blast
qed

lemma compileSteps_error_stops:
  assumes "compileSteps contentKey isMarkType [] (steps txn) = Inl e"
  shows "applyTransaction contentKey isMarkType change d txn = Inl e"
  using assms by (simp add: applyTransaction_def)

text \<open>
  C9. When the steps of a transaction compile to the operations \<open>operations\<close>, these
  are the operations pushed by the steps one after the other, in step order. When
  there are none, the Local Edit Compiler returns no change and the engine's document
  is the one it was given (whatever the engine's \<^verbatim>\<open>change\<close> does: it is not
  called); otherwise the result is that of one call of \<^verbatim>\<open>change\<close> on all of
  them.
\<close>

theorem applyTransaction_single_change:
  assumes "compileSteps contentKey isMarkType [] (steps txn) = Inr operations"
  shows "(\<exists>perStep. map (compileStep contentKey isMarkType []) (steps txn) = map Inr perStep
                    \<and> operations = concat perStep)
         \<and> applyTransaction contentKey isMarkType change d txn
           = (if operations = [] then Inr (None, d)
              else Inr (Some (fst (change d operations)), snd (change d operations)))"
proof -
  from compileSteps_concat [OF assms] have order:
    "\<exists>perStep. map (compileStep contentKey isMarkType []) (steps txn) = map Inr perStep
                \<and> operations = concat perStep"
    by simp
  have "applyTransaction contentKey isMarkType change d txn
        = (if operations = [] then Inr (None, d)
           else Inr (Some (fst (change d operations)), snd (change d operations)))"
    using assms by (simp add: applyTransaction_def split: prod.splits)
  with order show ?thesis by blast
qed

text \<open>
  An engine that keeps the lists of operations it was given shows both halves: a
  transaction whose only step is of another class leaves it untouched, and a
  transaction that types "hi" and then marks it gives it one list of two operations.
\<close>

theorem applyTransaction_single_change_witness:
  "compileSteps ''text'' (\<lambda>n. n \<in> set [''strong'', ''em'', ''comment'', ''link'']) []
     (steps \<lparr> doc = [], steps = [ReplaceStep 1 1 (Some \<lparr> content = [TextNode ''hi'' []] \<rparr>),
                                   AddMarkStep 1 3 \<lparr> markName = ''strong'', markAttrs = Some [] \<rparr>] \<rparr>)
     = Inr [OpInsert [''text''] 0 [''h'', ''i''], OpAddMark [''text''] 0 1 ''strong'' None]
   \<and> applyTransaction ''text'' (\<lambda>n. n \<in> set [''strong'', ''em'', ''comment'', ''link''])
       (\<lambda>d ops. (length d, d @ [ops])) []
       \<lparr> doc = [], steps = [ReplaceStep 1 1 (Some \<lparr> content = [TextNode ''hi'' []] \<rparr>),
                             AddMarkStep 1 3 \<lparr> markName = ''strong'', markAttrs = Some [] \<rparr>] \<rparr>
     = Inr (Some 0, [[OpInsert [''text''] 0 [''h'', ''i''], OpAddMark [''text''] 0 1 ''strong'' None]])
   \<and> compileSteps ''text'' (\<lambda>n. n \<in> set [''strong'', ''em'', ''comment'', ''link'']) []
       (steps \<lparr> doc = [], steps = [OtherStep ''replaceAround''] \<rparr>) = Inr []
   \<and> applyTransaction ''text'' (\<lambda>n. n \<in> set [''strong'', ''em'', ''comment'', ''link''])
       (\<lambda>d ops. (length d, d @ [ops])) []
       \<lparr> doc = [], steps = [OtherStep ''replaceAround''] \<rparr>
     = Inr (None, [])"
proof -
  let ?imt = "\<lambda>n. n \<in> set [''strong'', ''em'', ''comment'', ''link'']"
  let ?change = "\<lambda>d ops. (length d, d @ [ops])"
  let ?txn = "\<lparr> doc = [], steps = [ReplaceStep 1 1 (Some \<lparr> content = [TextNode ''hi'' []] \<rparr>),
                                     AddMarkStep 1 3 \<lparr> markName = ''strong'', markAttrs = Some [] \<rparr>] \<rparr>"
  let ?none = "\<lparr> doc = [], steps = [OtherStep ''replaceAround''] \<rparr>"
  have c1: "compileSteps ''text'' ?imt [] (steps ?txn)
            = Inr [OpInsert [''text''] 0 [''h'', ''i''], OpAddMark [''text''] 0 1 ''strong'' None]"
    by (simp add: contentPosFromProsemirrorPos_def textBetween_def split_chars_def)
  have c2: "compileSteps ''text'' ?imt [] (steps ?none) = Inr []"
    by simp
  from applyTransaction_single_change [OF c1, of ?change "[]"]
  have a1: "applyTransaction ''text'' ?imt ?change [] ?txn
            = Inr (Some 0, [[OpInsert [''text''] 0 [''h'', ''i''], OpAddMark [''text''] 0 1 ''strong'' None]])"
    by simp
  from applyTransaction_single_change [OF c2, of ?change "[]"]
  have a2: "applyTransaction ''text'' ?imt ?change [] ?none = Inr (None, [])"
    by simp
  from c1 c2 a1 a2 show ?thesis by blast
qed

subsection \<open>Mark ranges in the two coordinate systems\<close>

text \<open>
  C1. The Remote Patch Applier turns an addMark (removeMark) patch over the flat range
  \<open>start .. end\<close>, end included, into the call over the tree range from \<open>start + 1\<close>
  to \<open>end + 2\<close>, end excluded. The Local Edit Compiler turns an add-mark
  (remove-mark) step over the tree range from \<open>from\<close> to \<open>to\<close> into an operation
  with start \<open>from - 1\<close> and end \<open>(to - 1) - 1\<close>, whenever it compiles. So compiling
  the tree range that an addMark patch was given yields an operation with the start and
  the end of the patch.
\<close>

theorem mark_range_translation:
  "applyPatchToTransaction contentKey tr (PAddMark path start endIdx markType attrs)
     = Inr (tr_addMark tr (start + 1) (endIdx + 2) (schema_mark markType attrs))
   \<and> applyPatchToTransaction contentKey tr (PRemoveMark path start endIdx markType attrs)
     = Inr (tr_removeMark tr (start + 1) (endIdx + 2) (schema_mark markType attrs))
   \<and> (compileStep contentKey isMarkType operations (AddMarkStep from to mark) = Inr result
        \<longrightarrow> (\<exists>a. result = operations
                    @ [OpAddMark [contentKey] (from - 1) ((to - 1) - 1) (markName mark) a]))
   \<and> (compileStep contentKey isMarkType operations (RemoveMarkStep from to mark) = Inr result'
        \<longrightarrow> (\<exists>a. result' = operations
                    @ [OpRemoveMark [contentKey] (from - 1) ((to - 1) - 1) (markName mark) a]))
   \<and> (compileStep contentKey isMarkType operations
          (AddMarkStep (start + 1) (endIdx + 2) (schema_mark markType attrs)) = Inr back
        \<longrightarrow> (\<exists>a. back = operations @ [OpAddMark [contentKey] start endIdx markType a]))"
proof -
  have add: "\<exists>a. r = operations @ [OpAddMark [contentKey] (f - 1) ((t - 1) - 1) (markName m) a]"
    if "compileStep contentKey isMarkType operations (AddMarkStep f t m) = Inr r" for f t m r
    using that
    by (auto simp: Let_def contentPosFromProsemirrorPos_def split: if_splits)
  have remove: "\<exists>a. r = operations @ [OpRemoveMark [contentKey] (f - 1) ((t - 1) - 1) (markName m) a]"
    if "compileStep contentKey isMarkType operations (RemoveMarkStep f t m) = Inr r" for f t m r
    using that
    by (auto simp: Let_def contentPosFromProsemirrorPos_def split: if_splits)
  have again: "\<exists>a. r = operations @ [OpAddMark [contentKey] start endIdx markType a]"
    if "compileStep contentKey isMarkType operations
          (AddMarkStep (start + 1) (endIdx + 2) (schema_mark markType attrs)) = Inr r" for r
    using add [OF that] by (simp add: schema_mark_def)
  have patches:
    "applyPatchToTransaction contentKey tr (PAddMark path start endIdx markType attrs)
       = Inr (tr_addMark tr (start + 1) (endIdx + 2) (schema_mark markType attrs))"
    "applyPatchToTransaction contentKey tr (PRemoveMark path start endIdx markType attrs)
       = Inr (tr_removeMark tr (start + 1) (endIdx + 2) (schema_mark markType attrs))"
    by (simp_all add: add.assoc)
  from patches add remove again show ?thesis by blast
qed

text \<open>
  The scenario of a link over the flat range \<open>0 .. 3\<close> of "hello": the patch marks
  the tree range from 1 to 5, and the step it records compiles back to start 0, end 3.
\<close>

theorem mark_range_translation_witness:
  "steps (tr_addMark \<lparr> doc = map (\<lambda>c. (c, [])) ''hello'', steps = [] \<rparr> 1 5
            (schema_mark ''link'' (Some [(''url'', JsString ''u'')])))
     = [AddMarkStep 1 5 (schema_mark ''link'' (Some [(''url'', JsString ''u'')]))]
   \<and> applyPatchToTransaction ''text'' \<lparr> doc = map (\<lambda>c. (c, [])) ''hello'', steps = [] \<rparr>
        (PAddMark [''text''] 0 3 ''link'' (Some [(''url'', JsString ''u'')]))
     = Inr (tr_addMark \<lparr> doc = map (\<lambda>c. (c, [])) ''hello'', steps = [] \<rparr> 1 5
              (schema_mark ''link'' (Some [(''url'', JsString ''u'')])))
   \<and> compileStep ''text'' (\<lambda>n. n \<in> set [''strong'', ''em'', ''comment'', ''link'']) []
        (AddMarkStep 1 5 (schema_mark ''link'' (Some [(''url'', JsString ''u'')])))
     = Inr [OpAddMark [''text''] 0 3 ''link'' (Some [(''url'', JsString ''u'')])]
   \<and> (\<exists>a. [OpAddMark [''text''] 0 3 ''link'' (Some [(''url'', JsString ''u'')])]
           = [] @ [OpAddMark [''text''] 0 3 ''link'' a])"
proof -
  let ?tr = "\<lparr> doc = map (\<lambda>c. (c, [])) ''hello'', steps = [] \<rparr>"
  let ?attrs = "Some [(''url'', JsString ''u'')]"
  let ?imt = "\<lambda>n. n \<in> set [''strong'', ''em'', ''comment'', ''link'']"
  let ?op = "OpAddMark [''text''] 0 3 ''link'' ?attrs"
  have recorded: "steps (tr_addMark ?tr 1 5 (schema_mark ''link'' ?attrs))
                  = [AddMarkStep 1 5 (schema_mark ''link'' ?attrs)]"
    by (simp add: tr_addMark_def)
  have compiled: "compileStep ''text'' ?imt [] (AddMarkStep 1 5 (schema_mark ''link'' ?attrs))
                  = Inr [?op]"
    by (simp add: schema_mark_def lacksString_def getProp_def contentPosFromProsemirrorPos_def)
  note inst = mark_range_translation
    [of "''text''" ?tr "[''text'']" 0 3 "''link''" ?attrs ?imt "[]" 1 5
        "schema_mark ''link'' ?attrs" "[?op]" "[?op]" "[?op]"]
  from inst have applied:
    "applyPatchToTransaction ''text'' ?tr (PAddMark [''text''] 0 3 ''link'' ?attrs)
     = Inr (tr_addMark ?tr 1 5 (schema_mark ''link'' ?attrs))"
    by simp
  from inst compiled have "\<exists>a. [?op] = [] @ [OpAddMark [''text''] 0 3 ''link'' a]"
    by simp
  with recorded applied compiled show ?thesis by blast
qed

subsection \<open>Marks that need attributes, and unknown marks\<close>

lemma compileSteps_failing_step:
  assumes "step \<in> set stepList"
    and "compileStep contentKey isMarkType [] step = Inl e"
  shows "\<exists>e'. compileSteps contentKey isMarkType operations stepList = Inl e'"
  using assms(1)
proof (induction stepList arbitrary: operations)
  case Nil
  then show ?case by simp
next
  case (Cons s rest)
  show ?case
  proof (cases "compileStep contentKey isMarkType operations s")
    case (Inl e')
    then show ?thesis by simp
  next
    case (Inr operations')
    have "s \<noteq> step"
    proof
      assume "s = step"
      with Inr assms(2) show False
        by (subst (asm) compileStep_append) simp
    qed
    with Cons.prems have "step \<in> set rest" by simp
    from Cons.IH [OF this] Inr show ?thesis by simp
  qed
qed

lemma compileStep_mark_errors:
  assumes "(\<exists>from to mark. step = AddMarkStep from to mark
            \<and> (\<not> isMarkType (markName mark)
               \<or> markName mark = ''comment'' \<and> lacksString (markAttrs mark) ''id''
               \<or> markName mark = ''link'' \<and> lacksString (markAttrs mark) ''url''))
         \<or> (\<exists>from to mark. step = RemoveMarkStep from to mark
            \<and> (\<not> isMarkType (markName mark)
               \<or> markName mark = ''comment'' \<and> lacksString (markAttrs mark) ''id''))"
  shows "\<exists>e. compileStep contentKey isMarkType operations step = Inl e"
  using assms by (auto simp: Let_def)

text \<open>
  A remove-mark step of a link whose type is recognised always compiles, whatever its
  attributes are: the operation pushed carries none.
\<close>

lemma compileStep_remove_link:
  assumes "isMarkType (markName mark)" and "markName mark = ''link''"
  shows "compileStep contentKey isMarkType operations (RemoveMarkStep from to mark)
         = Inr (operations @ [OpRemoveMark [contentKey] (from - 1) ((to - 1) - 1) ''link'' None])"
  using assms by (simp add: Let_def contentPosFromProsemirrorPos_def)

text \<open>
  C4, as the code has it. A transaction fails to compile when one of its steps is an
  add-mark or remove-mark step of a mark type that is not recognised, or an add-mark or
  remove-mark step of a comment whose attributes are absent or hold no string
  \<^verbatim>\<open>id\<close>, or an add-mark step of a link whose attributes are absent or hold no
  string \<^verbatim>\<open>url\<close>. A remove-mark step of a link (a recognised type) requires no
  attribute: whatever its attributes are, absent or with a \<^verbatim>\<open>url\<close> that is not a
  string, it compiles to a removeMark operation that carries no attributes, and a
  transaction made of that step is handed to the engine as that one operation.
\<close>

theorem applyTransaction_mark_errors:
  "(step \<in> set (steps txn)
     \<and> ((\<exists>from to mark. step = AddMarkStep from to mark
            \<and> (\<not> isMarkType (markName mark)
               \<or> markName mark = ''comment'' \<and> lacksString (markAttrs mark) ''id''
               \<or> markName mark = ''link'' \<and> lacksString (markAttrs mark) ''url''))
         \<or> (\<exists>from to mark. step = RemoveMarkStep from to mark
            \<and> (\<not> isMarkType (markName mark)
               \<or> markName mark = ''comment'' \<and> lacksString (markAttrs mark) ''id'')))
     \<longrightarrow> (\<exists>e. compileStep contentKey isMarkType operations step = Inl e)
         \<and> (\<exists>e. applyTransaction contentKey isMarkType change d txn = Inl e))
   \<and> (isMarkType (markName linkMark) \<and> markName linkMark = ''link''
     \<longrightarrow> compileStep contentKey isMarkType operations (RemoveMarkStep from to linkMark)
           = Inr (operations
                  @ [OpRemoveMark [contentKey] (from - 1) ((to - 1) - 1) ''link'' None])
         \<and> applyTransaction contentKey isMarkType change d
             \<lparr> doc = document, steps = [RemoveMarkStep from to linkMark] \<rparr>
           = Inr (Some (fst (change d [OpRemoveMark [contentKey] (from - 1) ((to - 1) - 1) ''link'' None])),
                  snd (change d [OpRemoveMark [contentKey] (from - 1) ((to - 1) - 1) ''link'' None])))"
proof (intro conjI impI)
  assume bad: "step \<in> set (steps txn)
     \<and> ((\<exists>from to mark. step = AddMarkStep from to mark
            \<and> (\<not> isMarkType (markName mark)
               \<or> markName mark = ''comment'' \<and> lacksString (markAttrs mark) ''id''
               \<or> markName mark = ''link'' \<and> lacksString (markAttrs mark) ''url''))
         \<or> (\<exists>from to mark. step = RemoveMarkStep from to mark
            \<and> (\<not> isMarkType (markName mark)
               \<or> markName mark = ''comment'' \<and> lacksString (markAttrs mark) ''id'')))"
  then have member: "step \<in> set (steps txn)" by blast
  from bad have one: "\<exists>e. compileStep contentKey isMarkType ops step = Inl e" for ops
    by (intro compileStep_mark_errors) blast
  show "\<exists>e. compileStep contentKey isMarkType operations step = Inl e"
    by (rule one)
  from one obtain e where "compileStep contentKey isMarkType [] step = Inl e" by blast
  from compileSteps_failing_step [OF member this]
  obtain e' where "compileSteps contentKey isMarkType [] (steps txn) = Inl e'" by blast
  then have "applyTransaction contentKey isMarkType change d txn = Inl e'"
    by (simp add: applyTransaction_def)
  then show "\<exists>e. applyTransaction contentKey isMarkType change d txn = Inl e" by blast
next
  assume link: "isMarkType (markName linkMark) \<and> markName linkMark = ''link''"
  then have known: "isMarkType (markName linkMark)" and isLink: "markName linkMark = ''link''"
    by blast+
  have compiled: "compileStep contentKey isMarkType ops (RemoveMarkStep from to linkMark)
      = Inr (ops @ [OpRemoveMark [contentKey] (from - 1) ((to - 1) - 1) ''link'' None])" for ops
    by (rule compileStep_remove_link
          [where isMarkType = isMarkType and mark = linkMark, OF known isLink])
  show "compileStep contentKey isMarkType operations (RemoveMarkStep from to linkMark)
      = Inr (operations @ [OpRemoveMark [contentKey] (from - 1) ((to - 1) - 1) ''link'' None])"
    by (rule compiled)
  have "compileSteps contentKey isMarkType [] [RemoveMarkStep from to linkMark]
        = Inr [OpRemoveMark [contentKey] (from - 1) ((to - 1) - 1) ''link'' None]"
    using compiled [of "[]"] by simp
  then show "applyTransaction contentKey isMarkType change d
             \<lparr> doc = document, steps = [RemoveMarkStep from to linkMark] \<rparr>
           = Inr (Some (fst (change d [OpRemoveMark [contentKey] (from - 1) ((to - 1) - 1) ''link'' None])),
                  snd (change d [OpRemoveMark [contentKey] (from - 1) ((to - 1) - 1) ''link'' None]))"
    by (simp add: applyTransaction_def split: prod.splits)
qed

text \<open>
  A link whose \<^verbatim>\<open>url\<close> is the number 5: the transaction that adds it fails to
  compile; the step that removes it compiles to a removeMark operation with no
  attributes.
\<close>

theorem applyTransaction_mark_errors_witness:
  "AddMarkStep 1 3 \<lparr> markName = ''link'', markAttrs = Some [(''url'', JsNumber 5)] \<rparr>
     \<in> set (steps \<lparr> doc = [], steps = [ReplaceStep 1 1 (Some \<lparr> content = [TextNode ''ab'' []] \<rparr>),
             AddMarkStep 1 3 \<lparr> markName = ''link'', markAttrs = Some [(''url'', JsNumber 5)] \<rparr>] \<rparr>)
   \<and> lacksString (Some [(''url'', JsNumber 5)]) ''url''
   \<and> (\<exists>e. applyTransaction ''text'' (\<lambda>n. n \<in> set [''strong'', ''em'', ''comment'', ''link''])
             (\<lambda>d ops. (length d, d @ [ops])) []
             \<lparr> doc = [], steps = [ReplaceStep 1 1 (Some \<lparr> content = [TextNode ''ab'' []] \<rparr>),
               AddMarkStep 1 3 \<lparr> markName = ''link'', markAttrs = Some [(''url'', JsNumber 5)] \<rparr>] \<rparr>
           = Inl e)
   \<and> markName \<lparr> markName = ''link'', markAttrs = Some [(''url'', JsNumber 5)] \<rparr>
       \<in> set [''strong'', ''em'', ''comment'', ''link'']
   \<and> compileStep ''text'' (\<lambda>n. n \<in> set [''strong'', ''em'', ''comment'', ''link'']) []
       (RemoveMarkStep 1 3 \<lparr> markName = ''link'', markAttrs = Some [(''url'', JsNumber 5)] \<rparr>)
     = Inr [OpRemoveMark [''text''] 0 1 ''link'' None]"
proof -
  let ?imt = "\<lambda>n. n \<in> set [''strong'', ''em'', ''comment'', ''link'']"
  let ?mark = "\<lparr> markName = ''link'', markAttrs = Some [(''url'', JsNumber 5)] \<rparr>"
  let ?step = "AddMarkStep 1 3 ?mark"
  let ?txn = "\<lparr> doc = [], steps = [ReplaceStep 1 1 (Some \<lparr> content = [TextNode ''ab'' []] \<rparr>), ?step] \<rparr>"
  have member: "?step \<in> set (steps ?txn)" by simp
  have lacks: "lacksString (Some [(''url'', JsNumber 5)]) ''url''"
    by (simp add: lacksString_def getProp_def)
  have bad: "(\<exists>from to mark. ?step = AddMarkStep from to mark
            \<and> (\<not> ?imt (markName mark)
               \<or> markName mark = ''comment'' \<and> lacksString (markAttrs mark) ''id''
               \<or> markName mark = ''link'' \<and> lacksString (markAttrs mark) ''url''))
         \<or> (\<exists>from to mark. ?step = RemoveMarkStep from to mark
            \<and> (\<not> ?imt (markName mark)
               \<or> markName mark = ''comment'' \<and> lacksString (markAttrs mark) ''id''))"
    using lacks by simp
  have recognised: "markName ?mark \<in> set [''strong'', ''em'', ''comment'', ''link'']"
    by simp
  have isLink: "markName ?mark = ''link''" by simp
  note inst = applyTransaction_mark_errors
    [where step = ?step and txn = ?txn and isMarkType = ?imt and contentKey = "''text''"
       and operations = "[]" and change = "\<lambda>d ops. (length d, d @ [ops])" and d = "[]"
       and linkMark = ?mark and ?from = 1 and to = 3 and document = "[]"]
  from inst member bad
  have fails: "\<exists>e. applyTransaction ''text'' ?imt (\<lambda>d ops. (length d, d @ [ops])) [] ?txn = Inl e"
    by blast
  from inst recognised isLink
  have "compileStep ''text'' ?imt [] (RemoveMarkStep 1 3 ?mark)
        = Inr ([] @ [OpRemoveMark [''text''] (1 - 1) ((3 - 1) - 1) ''link'' None])"
    by blast
  then have removes: "compileStep ''text'' ?imt [] (RemoveMarkStep 1 3 ?mark)
        = Inr [OpRemoveMark [''text''] 0 1 ''link'' None]"
    by simp
  from member lacks fails recognised removes show ?thesis by blast
qed

text \<open>
  The claim as stated fails for the removal of a link: a remove-mark step of a link
  whose \<^verbatim>\<open>url\<close> is the number 5, not a string, compiles, and the engine is given
  a removeMark operation that carries no attributes.
\<close>

theorem remove_link_url_not_string_counterexample:
  "lacksString (Some [(''url'', JsNumber 5)]) ''url''
   \<and> applyTransaction ''text'' (\<lambda>n. n \<in> set [''strong'', ''em'', ''comment'', ''link''])
       (\<lambda>d ops. (length d, d @ [ops])) []
       \<lparr> doc = [], steps = [RemoveMarkStep 1 3
           \<lparr> markName = ''link'', markAttrs = Some [(''url'', JsNumber 5)] \<rparr>] \<rparr>
     = Inr (Some 0, [[OpRemoveMark [''text''] 0 1 ''link'' None]])"
  by (simp add: lacksString_def getProp_def applyTransaction_def contentPosFromProsemirrorPos_def)

subsection \<open>The insert patch\<close>

text \<open>
  What the insert case does with a patch whose index lies in the text: the text put at
  tree position \<open>index + 1\<close> is the first of the patch's values, whatever follows it.
\<close>

lemma applyPatchToTransaction_insert_first_value:
  assumes "0 \<le> idx" and "idx \<le> int (length (doc tr))" and "v \<noteq> []"
  shows "applyPatchToTransaction contentKey tr (PInsert path idx (v # others))
         = Inr \<lparr> doc = take (nat idx) (doc tr) @ map (\<lambda>c. (c, [])) v @ drop (nat idx) (doc tr),
                 steps = steps tr @ [ReplaceStep (idx + 1) (idx + 1)
                                       (Some \<lparr> content = [TextNode v []] \<rparr>)] \<rparr>"
  using assms
  by (simp add: firstValue_def schema_text_def tr_replace_def contentSize_def fragmentSize_def
        Let_def)

text \<open>
  C2, evaluated on the code. The patch \<open>insert(0, ['h', 'i'])\<close> applied to the document
  "lo" gives the tree text "hlo": the replace step carries the text "h" only, and the
  second value of the patch is dropped.
\<close>

theorem insert_patch_keeps_first_value_only:
  "applyPatchToTransaction ''text'' \<lparr> doc = map (\<lambda>c. (c, [])) ''lo'', steps = [] \<rparr>
     (PInsert [''text''] 0 [''h'', ''i''])
   = Inr \<lparr> doc = map (\<lambda>c. (c, [])) ''hlo'',
           steps = [ReplaceStep 1 1 (Some \<lparr> content = [TextNode ''h'' []] \<rparr>)] \<rparr>
   \<and> docText (map (\<lambda>c. (c, [])) ''hlo'') = ''hlo''"
  by (simp add: firstValue_def schema_text_def tr_replace_def contentSize_def fragmentSize_def
        docText_def)

text \<open>
  The same text arriving as one patch for each character does give "hilo".
\<close>

lemma insert_patches_one_value_each:
  "applyPatches ''text'' \<lparr> doc = map (\<lambda>c. (c, [])) ''lo'', steps = [] \<rparr>
     [PInsert [''text''] 0 [''h''], PInsert [''text''] 1 [''i'']]
   = Inr \<lparr> doc = map (\<lambda>c. (c, [])) ''hilo'',
           steps = [ReplaceStep 1 1 (Some \<lparr> content = [TextNode ''h'' []] \<rparr>),
                    ReplaceStep 2 2 (Some \<lparr> content = [TextNode ''i'' []] \<rparr>)] \<rparr>"
  by (simp add: firstValue_def schema_text_def tr_replace_def contentSize_def fragmentSize_def)

text \<open>A patch with no value at all is refused: there is no text to build a node from.\<close>

lemma applyPatchToTransaction_insert_no_value:
  "applyPatchToTransaction contentKey tr (PInsert path idx []) = Inl EmptyTextNode"
  by (simp add: firstValue_def schema_text_def)

subsection \<open>The range-replace step\<close>

text \<open>
  What the compiler pushes for a replace step that has a slice: the delete operation
  when \<open>from \<noteq> to\<close>, and then an insert operation in every case, with the characters
  of the slice's text (none for an empty slice).
\<close>

lemma compileStep_replace_with_slice:
  "compileStep contentKey isMarkType operations (ReplaceStep from to (Some slice))
   = Inr (operations
          @ (if from \<noteq> to then [OpDelete [contentKey] (from - 1) (to - from)] else [])
          @ [OpInsert [contentKey] (from - 1) (split_chars (textBetween (content slice)))])"
  by (simp add: contentPosFromProsemirrorPos_def)

lemma compileStep_replace_without_slice:
  "compileStep contentKey isMarkType operations (ReplaceStep from to None)
   = Inr (operations @ [OpDelete [contentKey] (from - 1) (to - from)])"
  by (simp add: contentPosFromProsemirrorPos_def)

text \<open>
  C3, evaluated on the code. The step that deletes the first character, a replace step
  over the tree range from 1 to 2 with the empty slice, compiles to the delete
  operation \<open>delete(0, 1)\<close> followed by an insert operation with no values.
\<close>

theorem pure_deletion_step_emits_insert:
  "compileStep ''text'' isMarkType [] (ReplaceStep 1 2 (Some Slice_empty))
   = Inr [OpDelete [''text''] 0 1, OpInsert [''text''] 0 []]"
  by (simp add: Slice_empty_def textBetween_def split_chars_def contentPosFromProsemirrorPos_def)

end
